theory Spec2Isabelle
  imports Complex_Main "HOL-Library.Word"
begin

unbundle bit_operations_syntax

section \<open>JavaScript values used by ip.js\<close>

text \<open>
  A JavaScript string is a sequence of 16-bit code units. String literals of the source
  are written \<open>js ''...''\<close>, single characters \<open>cu CHR ''.''\<close>.
\<close>

type_synonym code_unit = "16 word"
type_synonym jsstring = "code_unit list"

definition cu :: "char \<Rightarrow> code_unit" where
  "cu c = of_char c"

definition js :: "string \<Rightarrow> jsstring" where
  "js s = map cu s"

text \<open>
  The Number values the library computes with: \<open>NaN\<close>, the two infinities and the
  integers. \<open>Integer 0\<close> stands for both zeros (the code never tells \<open>-0\<close> from
  \<open>+0\<close>: it compares, adds and prints them, and all three agree on the two zeros).
  Finite numbers with a fractional part are not values of this type: printing one is
  the shortest round-tripping decimal of an IEEE-754 double, and a netmask with a
  fractional part leads to \<open>Math.pow\<close> at a fractional exponent. The section on
  \<open>ipv4NumberToDotNotation\<close> adds them for that function. Every integer the code
  computes on after a range check is below \<open>2^53\<close>, so it is an exact double.
\<close>

datatype number = NaN | Integer int | PosInfinity | NegInfinity

text \<open>
  An argument of a library function: a string, a number, or a value of any other type
  (\<open>undefined\<close>, \<open>null\<close>, a boolean, an object, ...), which the code only ever
  inspects with \<open>typeof\<close>.
\<close>

datatype jsval = Str jsstring | Num number | Other

datatype jstype = T_string | T_number | T_other

fun typeof :: "jsval \<Rightarrow> jstype" where
  "typeof (Str s) = T_string"
| "typeof (Num n) = T_number"
| "typeof Other = T_other"

text \<open>
  The two kinds of exception the source throws: \<open>new TypeError(...)\<close> and
  \<open>new Error('Invalid IPv4 address ...')\<close>.
\<close>

datatype exn = TypeError | Error

definition exn_bind :: "exn + 'a \<Rightarrow> ('a \<Rightarrow> exn + 'b) \<Rightarrow> exn + 'b" where
  "exn_bind r f = (case r of Inl e \<Rightarrow> Inl e | Inr v \<Rightarrow> f v)"

subsection \<open>Relational operators on numbers\<close>

text \<open>\<open>a < b\<close>, \<open>a <= b\<close> and \<open>a >= b\<close> of JavaScript: false as soon as one side is NaN.\<close>

fun num_lt :: "number \<Rightarrow> number \<Rightarrow> bool" where
  "num_lt (Integer a) (Integer b) = (a < b)"
| "num_lt (Integer a) PosInfinity = True"
| "num_lt NegInfinity (Integer b) = True"
| "num_lt NegInfinity PosInfinity = True"
| "num_lt a b = False"

fun num_le :: "number \<Rightarrow> number \<Rightarrow> bool" where
  "num_le NaN b = False"
| "num_le a NaN = False"
| "num_le a b = (\<not> num_lt b a)"

definition num_gt :: "number \<Rightarrow> number \<Rightarrow> bool" where
  "num_gt a b = num_lt b a"

definition num_ge :: "number \<Rightarrow> number \<Rightarrow> bool" where
  "num_ge a b = num_le b a"

subsection \<open>Number.prototype.toString and string concatenation of a number\<close>

definition digitChar :: "int \<Rightarrow> code_unit" where
  "digitChar d = word_of_int (48 + d)"

text \<open>
  The digits of a non-negative integer in radix \<open>r\<close>, most significant first. The
  code prints in radix 2 and 10 only, so every digit is one of \<open>0\<close> to \<open>9\<close> and
  \<open>digitChar\<close> need not know the letters of the larger radices.
\<close>

function digitsOf :: "int \<Rightarrow> int \<Rightarrow> jsstring" where
  "digitsOf r n =
     (if r < 2 \<or> n < r then [digitChar n]
      else digitsOf r (n div r) @ [digitChar (n mod r)])"
  by pat_completeness auto
termination
proof (relation "measure (\<lambda>(r, n). nat n)")
  show "wf (measure (\<lambda>(r, n). nat n))"
    by simp
next
  fix r n :: int
  assume "\<not> (r < 2 \<or> n < r)"
  then have "2 \<le> r" and "r \<le> n"
    by simp_all
  then have "n div r < n"
    by (simp add: int_div_less_self)
  moreover have "0 < n"
    using \<open>2 \<le> r\<close> \<open>r \<le> n\<close> by simp
  ultimately show "((r, n div r), (r, n)) \<in> measure (\<lambda>(r, n). nat n)"
    by simp
qed

declare digitsOf.simps [simp del]

text \<open>
  \<open>x.toString(r)\<close>, and with \<open>r = 10\<close> the conversion \<open>'' + x\<close> applied when a
  number is concatenated to a string (for integers below \<open>10^21\<close>, which are printed
  digit by digit).
\<close>

fun numberToString :: "int \<Rightarrow> number \<Rightarrow> jsstring" where
  "numberToString r NaN = js ''NaN''"
| "numberToString r PosInfinity = js ''Infinity''"
| "numberToString r NegInfinity = js ''-Infinity''"
| "numberToString r (Integer n) =
     (if n < 0 then cu CHR ''-'' # digitsOf r (- n) else digitsOf r n)"

subsection \<open>parseInt(string, 10)\<close>

text \<open>
  The built-in \<open>parseInt\<close> with radix 10: leading white space is skipped, one sign is
  read, then the longest run of decimal digits; an empty run is \<open>NaN\<close> (\<open>None\<close>).
  Everything from the first non-digit on is ignored. The result is compared with small
  bounds only (255 and 32), which every double rounding of a longer digit string leaves
  on the same side, so the exact integer stands for it. White space is the code units
  of the productions WhiteSpace and LineTerminator of ECMAScript.
\<close>

definition isWhiteSpace :: "code_unit \<Rightarrow> bool" where
  "isWhiteSpace c =
     (c \<in> {0x9, 0xA, 0xB, 0xC, 0xD, 0x20, 0xA0, 0x1680, 0x2028, 0x2029, 0x202F, 0x205F,
            0x3000, 0xFEFF} \<or> (0x2000 \<le> c \<and> c \<le> 0x200A))"

definition isDigit :: "code_unit \<Rightarrow> bool" where
  "isDigit c = (0x30 \<le> c \<and> c \<le> 0x39)"

definition digitValue :: "code_unit \<Rightarrow> int" where
  "digitValue c = uint c - 48"

definition decimalValue :: "jsstring \<Rightarrow> int" where
  "decimalValue Z = foldl (\<lambda>acc c. acc * 10 + digitValue c) 0 Z"

definition parseInt10 :: "jsstring \<Rightarrow> int option" where
  "parseInt10 inputString =
     (let S = dropWhile isWhiteSpace inputString;
          sign = (if S \<noteq> [] \<and> hd S = cu CHR ''-'' then - 1 else 1);
          S' = (if S \<noteq> [] \<and> (hd S = cu CHR ''+'' \<or> hd S = cu CHR ''-'') then tl S else S);
          Z = takeWhile isDigit S'
      in if Z = [] then None else Some (sign * decimalValue Z))"

subsection \<open>String.prototype.split, indexOf, lastIndexOf\<close>

text \<open>
  \<open>s.split('.')\<close>: the pieces between the dots, never the empty array. \<open>piece\<close>
  holds the code units read since the last dot.
\<close>

fun splitFrom :: "jsstring \<Rightarrow> jsstring \<Rightarrow> jsstring list" where
  "splitFrom piece [] = [piece]"
| "splitFrom piece (c # cs) =
     (if c = cu CHR ''.'' then piece # splitFrom [] cs else splitFrom (piece @ [c]) cs)"

definition split_dot :: "jsstring \<Rightarrow> jsstring list" where
  "split_dot s = splitFrom [] s"

text \<open>\<open>s.indexOf(c)\<close> and \<open>s.lastIndexOf(c)\<close> for a one-character \<open>c\<close>; \<open>-1\<close> when absent.\<close>

fun indexOfFrom :: "jsstring \<Rightarrow> code_unit \<Rightarrow> int \<Rightarrow> int" where
  "indexOfFrom [] c k = - 1"
| "indexOfFrom (x # xs) c k = (if x = c then k else indexOfFrom xs c (k + 1))"

definition indexOf :: "jsstring \<Rightarrow> code_unit \<Rightarrow> int" where
  "indexOf s c = indexOfFrom s c 0"

fun lastIndexOfFrom :: "jsstring \<Rightarrow> code_unit \<Rightarrow> int \<Rightarrow> int \<Rightarrow> int" where
  "lastIndexOfFrom [] c k found = found"
| "lastIndexOfFrom (x # xs) c k found =
     lastIndexOfFrom xs c (k + 1) (if x = c then k else found)"

definition lastIndexOf :: "jsstring \<Rightarrow> code_unit \<Rightarrow> int" where
  "lastIndexOf s c = lastIndexOfFrom s c 0 (- 1)"

text \<open>\<open>decimals[i]\<close> converted to a string, as \<open>parseInt\<close> does with its argument: a
  missing element is \<open>undefined\<close>, which converts to the string \<open>undefined\<close>.\<close>

definition elementToString :: "jsstring list \<Rightarrow> nat \<Rightarrow> jsstring" where
  "elementToString decimals i = (if i < length decimals then decimals ! i else js ''undefined'')"

section \<open>ipv4DotNotationToNumber\<close>

text \<open>
  The loop \<open>for (i = 0; i < 4; i += 1)\<close> of the source, with the accumulator
  \<open>ipv4Numeric\<close>. It reads \<open>decimals[0..3]\<close> and nothing else of the array.
\<close>

function dotNotationLoop :: "jsstring list \<Rightarrow> nat \<Rightarrow> int \<Rightarrow> exn + int" where
  "dotNotationLoop decimals i ipv4Numeric =
     (if i < 4 then
        (case parseInt10 (elementToString decimals i) of
           None \<Rightarrow> Inl Error
         | Some decimal \<Rightarrow>
             if decimal < 0 \<or> decimal > 255 then Inl Error
             else dotNotationLoop decimals (i + 1) (ipv4Numeric * 256 + decimal))
      else Inr ipv4Numeric)"
  by pat_completeness auto
termination
  by (relation "measure (\<lambda>(decimals, i, ipv4Numeric). 4 - i)") auto

declare dotNotationLoop.simps [simp del]

definition ipv4DotNotationToNumber :: "jsval \<Rightarrow> exn + int" where
  "ipv4DotNotationToNumber ipv4DotNotation =
     (case ipv4DotNotation of
        Str s \<Rightarrow> dotNotationLoop (split_dot s) 0 0
      | _ \<Rightarrow> Inl TypeError)"

section \<open>ipv4NumberToDotNotation\<close>

text \<open>\<open>x % 256\<close> and \<open>Math.floor(x / 256)\<close> on numbers.\<close>

fun rem256 :: "number \<Rightarrow> number" where
  "rem256 (Integer n) = Integer (if n < 0 then - ((- n) mod 256) else n mod 256)"
| "rem256 x = NaN"

fun floorDiv256 :: "number \<Rightarrow> number" where
  "floorDiv256 (Integer n) = Integer (n div 256)"
| "floorDiv256 x = x"

text \<open>
  The loop \<open>while ((i -= 1) > 0)\<close>: entered with \<open>i = 4\<close>, its body runs for
  \<open>i = 3, 2, 1\<close>. \<open>ipv4DotNotation\<close> starts as the number \<open>ipv4Numeric % 256\<close> and
  is converted to a string by the first concatenation; the model converts it on entry.
\<close>

function numberLoop :: "nat \<Rightarrow> number \<Rightarrow> jsstring \<Rightarrow> jsstring" where
  "numberLoop i ipv4Numeric ipv4DotNotation =
     (if i - 1 > 0 then
        (let ipv4Numeric' = floorDiv256 ipv4Numeric
         in numberLoop (i - 1) ipv4Numeric'
              (numberToString 10 (rem256 ipv4Numeric') @ js ''.'' @ ipv4DotNotation))
      else ipv4DotNotation)"
  by pat_completeness auto
termination
  by (relation "measure (\<lambda>(i, ipv4Numeric, ipv4DotNotation). i)") auto

declare numberLoop.simps [simp del]

definition ipv4NumberToDotNotation :: "jsval \<Rightarrow> exn + jsstring" where
  "ipv4NumberToDotNotation ipv4Numeric =
     (case ipv4Numeric of
        Num n \<Rightarrow>
          if num_lt n (Integer 0) \<or> num_gt n (Integer 4294967295) then Inl Error
          else Inr (numberLoop 4 n (numberToString 10 (rem256 n)))
      | _ \<Rightarrow> Inl TypeError)"

subsection \<open>ipv4NumberToDotNotation on every Number value\<close>

text \<open>
  \<open>ipv4NumberToDotNotation\<close> tests the type and the range of its argument and
  nothing else, so it also computes on finite numbers with a fractional part. Such a
  number is given by its exact value, a rational that is not an integer
  (\<open>Fraction (3 / 2)\<close> is 1.5). On the doubles that pass the range check
  \<open>x % 256\<close> and \<open>Math.floor(x / 256)\<close> are exact, and so are the comparisons with
  0 and 4294967295. Printing a number with a fractional part is the built-in
  \<open>Number::toString\<close>, which is not part of the source; it is the parameter
  \<open>fractionToString\<close>. Everything else is the function above, line by line.
\<close>

datatype any_number = Plain number | Fraction rat

datatype any_jsval = AnyStr jsstring | AnyNum any_number | AnyOther

fun typeof_any :: "any_jsval \<Rightarrow> jstype" where
  "typeof_any (AnyStr s) = T_string"
| "typeof_any (AnyNum n) = T_number"
| "typeof_any AnyOther = T_other"

text \<open>\<open>x < k\<close> and \<open>x > k\<close> for an integer \<open>k\<close>.\<close>

fun any_lt :: "any_number \<Rightarrow> int \<Rightarrow> bool" where
  "any_lt (Plain n) k = num_lt n (Integer k)"
| "any_lt (Fraction q) k = (q < of_int k)"

fun any_gt :: "any_number \<Rightarrow> int \<Rightarrow> bool" where
  "any_gt (Plain n) k = num_gt n (Integer k)"
| "any_gt (Fraction q) k = (of_int k < q)"

text \<open>\<open>x % 256\<close> has the sign of \<open>x\<close>; of a number with a fractional part it is one.\<close>

fun any_rem256 :: "any_number \<Rightarrow> any_number" where
  "any_rem256 (Plain n) = Plain (rem256 n)"
| "any_rem256 (Fraction q) =
     Fraction (if q < 0 then - (- q - 256 * of_int \<lfloor>- q / 256\<rfloor>)
               else q - 256 * of_int \<lfloor>q / 256\<rfloor>)"

fun any_floorDiv256 :: "any_number \<Rightarrow> any_number" where
  "any_floorDiv256 (Plain n) = Plain (floorDiv256 n)"
| "any_floorDiv256 (Fraction q) = Plain (Integer \<lfloor>q / 256\<rfloor>)"

fun any_toString :: "(rat \<Rightarrow> jsstring) \<Rightarrow> any_number \<Rightarrow> jsstring" where
  "any_toString fractionToString (Plain n) = numberToString 10 n"
| "any_toString fractionToString (Fraction q) = fractionToString q"

function numberLoop_any ::
  "(rat \<Rightarrow> jsstring) \<Rightarrow> nat \<Rightarrow> any_number \<Rightarrow> jsstring \<Rightarrow> jsstring" where
  "numberLoop_any fractionToString i ipv4Numeric ipv4DotNotation =
     (if i - 1 > 0 then
        (let ipv4Numeric' = any_floorDiv256 ipv4Numeric
         in numberLoop_any fractionToString (i - 1) ipv4Numeric'
              (any_toString fractionToString (any_rem256 ipv4Numeric') @ js ''.'' @
               ipv4DotNotation))
      else ipv4DotNotation)"
  by pat_completeness auto
termination
  by (relation "measure (\<lambda>(fractionToString, i, ipv4Numeric, ipv4DotNotation). i)") auto

declare numberLoop_any.simps [simp del]

definition ipv4NumberToDotNotation_any ::
  "(rat \<Rightarrow> jsstring) \<Rightarrow> any_jsval \<Rightarrow> exn + jsstring" where
  "ipv4NumberToDotNotation_any fractionToString ipv4Numeric =
     (case ipv4Numeric of
        AnyNum n \<Rightarrow>
          if any_lt n 0 \<or> any_gt n 4294967295 then Inl Error
          else Inr (numberLoop_any fractionToString 4 n
                      (any_toString fractionToString (any_rem256 n)))
      | _ \<Rightarrow> Inl TypeError)"

text \<open>The values of \<open>jsval\<close> among those of \<open>any_jsval\<close>.\<close>

fun any_of :: "jsval \<Rightarrow> any_jsval" where
  "any_of (Str s) = AnyStr s"
| "any_of (Num n) = AnyNum (Plain n)"
| "any_of Other = AnyOther"

section \<open>ip\<close>

text \<open>The object \<open>ip\<close> returns: its two closures read \<open>numeric\<close> and \<open>notation\<close>.\<close>

record ip_object =
  numeric :: number
  notation' :: jsstring

definition valueOf :: "ip_object \<Rightarrow> number" where
  "valueOf a = numeric a"

definition toString :: "ip_object \<Rightarrow> jsstring" where
  "toString a = notation' a"

definition ip :: "jsval \<Rightarrow> exn + ip_object" where
  "ip address =
     (case address of
        Str s \<Rightarrow>
          exn_bind (ipv4DotNotationToNumber address)
            (\<lambda>n. Inr \<lparr>numeric = Integer n, notation' = s\<rparr>)
      | Num n \<Rightarrow>
          exn_bind (ipv4NumberToDotNotation address)
            (\<lambda>s. Inr \<lparr>numeric = n, notation' = s\<rparr>)
      | Other \<Rightarrow> Inl TypeError)"

section \<open>netmaskToPrefixSize\<close>

text \<open>
  The result is \<open>null\<close> (\<open>None\<close>) or a number. For a dotted string the function calls
  \<open>ip\<close>, so it throws where \<open>ip\<close> does. A number that passes the last test lies
  between 0 and 32, so the result is kept as an integer.
\<close>

definition netmaskToPrefixSize :: "jsval \<Rightarrow> exn + int option" where
  "netmaskToPrefixSize netmask =
     (case netmask of
        Str s \<Rightarrow>
          if indexOf s (cu CHR ''.'') \<noteq> - 1 then
            exn_bind (ip netmask) (\<lambda>a.
              let bin = numberToString 2 (valueOf a);
                  lastIndexOfOne = lastIndexOf bin (cu CHR ''1'');
                  firstIndexOfZero = indexOf bin (cu CHR ''0'')
              in Inr (if lastIndexOfOne \<noteq> - 1 \<and> firstIndexOfZero \<noteq> - 1 \<and>
                         lastIndexOfOne < firstIndexOfZero
                      then Some firstIndexOfZero else None))
          else
            (case parseInt10 s of
               None \<Rightarrow> Inr None
             | Some n \<Rightarrow> Inr (if n \<ge> 0 \<and> n \<le> 32 then Some n else None))
      | Num n \<Rightarrow>
          Inr (if num_ge n (Integer 0) \<and> num_le n (Integer 32)
               then (case n of Integer k \<Rightarrow> Some k | _ \<Rightarrow> None) else None)
      | Other \<Rightarrow> Inr None)"

section \<open>subnet\<close>

text \<open>
  The object \<open>subnet\<close> returns. \<open>network\<close> and \<open>broadcast\<close> are \<open>undefined\<close>
  (\<open>None\<close>) when the else branch ran. The closures \<open>valueOf\<close>, \<open>toString\<close> and
  \<open>contains\<close> read the variables \<open>ipNumeric\<close>, \<open>cidr\<close>, \<open>networkNumeric\<close>,
  \<open>firstNumeric\<close>, \<open>broadcastNumeric\<close> and \<open>lastNumeric\<close> of the call, which the
  record keeps beside the properties.
\<close>

record subnet_object =
  size' :: int
  network :: "jsstring option"
  first :: jsstring
  last' :: jsstring
  broadcast :: "jsstring option"
  ipNumeric :: number
  cidr :: jsstring
  networkNumeric :: "number option"
  firstNumeric :: number
  broadcastNumeric :: "number option"
  lastNumeric :: number

text \<open>\<open>null\<close> in arithmetic and comparisons is 0; concatenated to a string it is \<open>null\<close>.\<close>

definition prefixToNumber :: "int option \<Rightarrow> int" where
  "prefixToNumber prefixSize = (case prefixSize of None \<Rightarrow> 0 | Some p \<Rightarrow> p)"

definition prefixToString :: "int option \<Rightarrow> jsstring" where
  "prefixToString prefixSize =
     (case prefixSize of None \<Rightarrow> js ''null'' | Some p \<Rightarrow> numberToString 10 (Integer p))"

text \<open>
  The 32-bit operators. \<open>ToUint32\<close> maps NaN and the infinities to 0 and an integer to
  its residue modulo \<open>2^32\<close>. \<open>x << n\<close> shifts by \<open>n\<close> modulo 32. \<open>>>> 0\<close> reads
  the 32 bits as an unsigned number.
\<close>

fun toUint32 :: "number \<Rightarrow> 32 word" where
  "toUint32 (Integer n) = word_of_int n"
| "toUint32 x = 0"

definition shiftLeft :: "32 word \<Rightarrow> int \<Rightarrow> 32 word" where
  "shiftLeft x n = push_bit (nat (n mod 32)) x"

text \<open>
  \<open>Math.pow(2, bits)\<close>; \<open>bits\<close> is \<open>32 - prefixSize\<close> with \<open>prefixSize\<close> null or
  between 0 and 32, so it is never negative and the power is an integer.
\<close>

definition pow2 :: "int \<Rightarrow> int" where
  "pow2 bits = 2 ^ nat bits"

definition subnet :: "number \<Rightarrow> jsval \<Rightarrow> exn + subnet_object" where
  "subnet ipNum netmask =
     exn_bind (netmaskToPrefixSize netmask) (\<lambda>prefixSize.
       let bits = 32 - prefixToNumber prefixSize;
           maskedAddress = uint (toUint32 ipNum AND shiftLeft 0xFFFFFFFF bits);
           sz = pow2 bits
       in exn_bind (ipv4NumberToDotNotation (Num ipNum)) (\<lambda>dotted.
            let cidr = dotted @ js ''/'' @ prefixToString prefixSize in
            if prefixToNumber prefixSize < 31 then
              (let firstNumeric = Integer (maskedAddress + 1);
                   lastNumeric = Integer (maskedAddress + sz - 2);
                   broadcastNumeric = Integer (maskedAddress + sz - 1);
                   networkNumeric = Integer maskedAddress
               in exn_bind (ipv4NumberToDotNotation (Num firstNumeric)) (\<lambda>first.
                  exn_bind (ipv4NumberToDotNotation (Num lastNumeric)) (\<lambda>last.
                  exn_bind (ipv4NumberToDotNotation (Num networkNumeric)) (\<lambda>network.
                  exn_bind (ipv4NumberToDotNotation (Num broadcastNumeric)) (\<lambda>broadcast.
                    Inr \<lparr>size' = sz, network = Some network, first = first, last' = last,
                         broadcast = Some broadcast, ipNumeric = ipNum, cidr = cidr,
                         networkNumeric = Some networkNumeric, firstNumeric = firstNumeric,
                         broadcastNumeric = Some broadcastNumeric,
                         lastNumeric = lastNumeric\<rparr>)))))
            else
              (let firstNumeric = ipNum;
                   lastNumeric = Integer (maskedAddress + sz - 1)
               in exn_bind (ipv4NumberToDotNotation (Num firstNumeric)) (\<lambda>first.
                  exn_bind (ipv4NumberToDotNotation (Num lastNumeric)) (\<lambda>last.
                    Inr \<lparr>size' = sz, network = None, first = first, last' = last,
                         broadcast = None, ipNumeric = ipNum, cidr = cidr,
                         networkNumeric = None, firstNumeric = firstNumeric,
                         broadcastNumeric = None, lastNumeric = lastNumeric\<rparr>)))))"

text \<open>
  \<open>a || b\<close> with \<open>a\<close> a number or \<open>undefined\<close>: \<open>b\<close> when \<open>a\<close> is falsy, that
  is \<open>undefined\<close>, 0 or NaN.
\<close>

definition orElse :: "number option \<Rightarrow> number \<Rightarrow> number" where
  "orElse a b =
     (case a of
        None \<Rightarrow> b
      | Some NaN \<Rightarrow> b
      | Some (Integer n) \<Rightarrow> if n = 0 then b else Integer n
      | Some x \<Rightarrow> x)"

text \<open>
  \<open>contains\<close>: the comparisons convert the object \<open>ip(address)\<close> with its
  \<open>valueOf\<close>.
\<close>

definition contains :: "subnet_object \<Rightarrow> jsval \<Rightarrow> exn + bool" where
  "contains sn address =
     exn_bind (ip address) (\<lambda>a.
       Inr (num_ge (valueOf a) (orElse (networkNumeric sn) (firstNumeric sn)) \<and>
            num_le (valueOf a) (orElse (broadcastNumeric sn) (lastNumeric sn))))"

section \<open>The exported constructor\<close>

text \<open>\<open>address.mask = function (netmask) { return subnet(address.valueOf(), netmask); }\<close>\<close>

definition mask :: "ip_object \<Rightarrow> jsval \<Rightarrow> exn + subnet_object" where
  "mask address netmask = subnet (valueOf address) netmask"

section \<open>Dot notation: segment count\<close>

text \<open>
  With fewer than four segments the loop reaches a missing element, which parses as
  NaN, so the call throws (unless an earlier segment already made it throw).
\<close>

lemma parseInt10_undefined: "parseInt10 (js ''undefined'') = None"
  by code_simp

lemma dotNotationLoop_short:
  "length decimals < 4 \<Longrightarrow> i \<le> length decimals \<Longrightarrow>
   dotNotationLoop decimals i acc = Inl Error"
proof (induction decimals i acc rule: dotNotationLoop.induct)
  case (1 decimals i ipv4Numeric)
  show ?case
  proof (cases "i = length decimals")
    case True
    with "1.prems" show ?thesis
      by (subst dotNotationLoop.simps)
         (simp add: elementToString_def parseInt10_undefined)
  next
    case False
    with "1.prems" have lt: "i < length decimals" and i4: "i < 4"
      by simp_all
    show ?thesis
    proof (cases "parseInt10 (elementToString decimals i)")
      case None
      with i4 show ?thesis
        by (subst dotNotationLoop.simps) simp
    next
      case (Some decimal)
      show ?thesis
      proof (cases "decimal < 0 \<or> decimal > 255")
        case True
        with Some i4 show ?thesis
          by (subst dotNotationLoop.simps) simp
      next
        case False
        with "1.IH" [OF i4 Some] "1.prems" lt
        have "dotNotationLoop decimals (i + 1) (ipv4Numeric * 256 + decimal) = Inl Error"
          by simp
        with Some False i4 show ?thesis
          by (subst dotNotationLoop.simps) simp
      qed
    qed
  qed
qed

lemma ipv4DotNotationToNumber_too_few:
  "length (split_dot s) < 4 \<Longrightarrow> ipv4DotNotationToNumber (Str s) = Inl Error"
  by (simp add: ipv4DotNotationToNumber_def dotNotationLoop_short)

text \<open>
  C6, at a string of five segments. The claim asks for a failure whenever the split does
  not yield exactly four segments. The loop reads \<open>decimals[0]\<close> to \<open>decimals[3]\<close>
  and never looks at the length of the array, so \<open>1.2.3.4.5\<close> is accepted and parses
  as \<open>1.2.3.4\<close>, the number 16909060.
\<close>

theorem ipv4DotNotationToNumber_five_segments:
  "length (split_dot (js ''1.2.3.4.5'')) = 5 \<and>
   ipv4DotNotationToNumber (Str (js ''1.2.3.4.5'')) = Inr 16909060"
  by code_simp

section \<open>Number to dot notation: the type check\<close>

text \<open>
  On NaN, the infinities and the integers the function on every Number value is the
  function on \<open>jsval\<close>.
\<close>

lemma numberLoop_any_Plain:
  "numberLoop_any fractionToString i (Plain n) s = numberLoop i n s"
proof (induction i n s rule: numberLoop.induct)
  case (1 i ipv4Numeric ipv4DotNotation)
  show ?case
  proof (cases "i - 1 > 0")
    case True
    with "1.IH" [OF True refl] show ?thesis
      by (subst numberLoop_any.simps, subst numberLoop.simps) (simp add: Let_def)
  next
    case False
    then show ?thesis
      by (subst numberLoop_any.simps, subst numberLoop.simps) simp
  qed
qed

lemma ipv4NumberToDotNotation_any_of:
  "ipv4NumberToDotNotation_any fractionToString (any_of v) = ipv4NumberToDotNotation v"
  by (cases v)
     (simp_all add: ipv4NumberToDotNotation_any_def ipv4NumberToDotNotation_def
        numberLoop_any_Plain)

text \<open>
  What the function returns for the numbers in range that are not integers is not part
  of the amended claim below: NaN prints as \<open>NaN.NaN.NaN.NaN\<close>, and 1.5 as
  \<open>0.0.0.\<close> followed by the print of 1.5.
\<close>

lemma ipv4NumberToDotNotation_NaN:
  "ipv4NumberToDotNotation (Num NaN) = Inr (js ''NaN.NaN.NaN.NaN'')"
  by code_simp

lemma ipv4NumberToDotNotation_any_one_and_a_half:
  "ipv4NumberToDotNotation_any fractionToString (AnyNum (Fraction (3 / 2))) =
   Inr (js ''0.0.0.'' @ fractionToString (3 / 2))"
proof -
  have zero: "\<lfloor>(3 / 2 :: rat) / 256\<rfloor> = 0" "\<lfloor>3 / 512 :: rat\<rfloor> = 0"
    by (simp_all add: floor_eq_iff)
  have digits: "digitsOf 10 0 = js ''0''"
    by code_simp
  have dots: "js ''0'' @ js ''.'' @ js ''0'' @ js ''.'' @ js ''0'' @ js ''.'' @ t = js ''0.0.0.'' @ t"
    for t
    by (simp add: js_def)
  have "numberLoop_any fractionToString 4 (Fraction (3 / 2)) t =
      js ''0'' @ js ''.'' @ js ''0'' @ js ''.'' @ js ''0'' @ js ''.'' @ t" for t
    by (subst numberLoop_any.simps, simp add: zero digits)+
  then show ?thesis
    by (simp add: ipv4NumberToDotNotation_any_def zero dots)
qed

text \<open>
  C7, the counterexample: \<open>Infinity\<close> is a number that is not integer-valued, and the
  function fails for it with the \<open>Error\<close> of the range check, not with a TypeError.
\<close>

theorem ipv4NumberToDotNotation_Infinity:
  "typeof (Num PosInfinity) = T_number \<and>
   ipv4NumberToDotNotation (Num PosInfinity) = Inl Error \<and>
   ipv4NumberToDotNotation (Num PosInfinity) \<noteq> Inl TypeError"
  by (simp add: ipv4NumberToDotNotation_def num_gt_def)

text \<open>
  C7, as amended: the function fails with TypeError if and only if its argument is not
  of type number; a number, integer-valued or not, that is below 0 or above 4294967295
  (such as \<open>Infinity\<close> or -1.5) fails with \<open>Error\<close>. This holds whatever the print
  of a number with a fractional part is.
\<close>

theorem ipv4NumberToDotNotation_any_errors:
  "((ipv4NumberToDotNotation_any fractionToString v = Inl TypeError) =
      (typeof_any v \<noteq> T_number)) \<and>
   (any_lt x 0 \<or> any_gt x 4294967295 \<longrightarrow>
      ipv4NumberToDotNotation_any fractionToString (AnyNum x) = Inl Error)"
  by (cases v) (simp_all add: ipv4NumberToDotNotation_any_def)

text \<open>
  The same at 1.5, a number that is not a TypeError, and at -1.5, which is below 0.
\<close>

theorem ipv4NumberToDotNotation_any_errors_witness:
  "typeof_any (AnyNum (Fraction (3 / 2))) = T_number \<and>
   ipv4NumberToDotNotation_any (\<lambda>q. []) (AnyNum (Fraction (3 / 2))) \<noteq> Inl TypeError \<and>
   any_lt (Fraction (- 3 / 2)) 0 \<and>
   ipv4NumberToDotNotation_any (\<lambda>q. []) (AnyNum (Fraction (- 3 / 2))) = Inl Error"
  using ipv4NumberToDotNotation_any_errors
    [of "\<lambda>q. []" "AnyNum (Fraction (3 / 2))" "Fraction (- 3 / 2)"]
  by simp

section \<open>The notation of an address built from a string\<close>

text \<open>
  C10: for every string \<open>s\<close> that dot-notation parsing accepts, the address built
  from \<open>s\<close> returns \<open>s\<close> itself from \<open>toString\<close>; the string is stored as given
  and not printed again from the number.
\<close>

theorem ip_toString_verbatim:
  "ipv4DotNotationToNumber (Str s) = Inr n \<Longrightarrow>
   \<exists>a. ip (Str s) = Inr a \<and> toString a = s \<and> valueOf a = Integer n"
  by (simp add: ip_def exn_bind_def toString_def valueOf_def)

text \<open>
  The same at \<open>127.00.0.1\<close>, which is accepted although its second octet has a
  leading zero, and which \<open>toString\<close> gives back unchanged.
\<close>

theorem ip_toString_verbatim_witness:
  "ipv4DotNotationToNumber (Str (js ''127.00.0.1'')) = Inr 2130706433 \<and>
   (\<exists>a. ip (Str (js ''127.00.0.1'')) = Inr a \<and> toString a = js ''127.00.0.1'' \<and>
        valueOf a = Integer 2130706433)"
proof -
  have accepted: "ipv4DotNotationToNumber (Str (js ''127.00.0.1'')) = Inr 2130706433"
    by code_simp
  from ip_toString_verbatim [OF accepted] accepted show ?thesis
    by simp
qed

section \<open>Printing and parsing an address\<close>

text \<open>
  Decimal digits are neither dots, signs nor white space, so \<open>parseInt\<close> reads a
  printed octet back in full and \<open>split\<close> cuts a printed address at its three dots.
\<close>

lemma cu_dot: "cu CHR ''.'' = 0x2E" and cu_plus: "cu CHR ''+'' = 0x2B"
  and cu_minus: "cu CHR ''-'' = 0x2D"
  by (simp_all add: cu_def)

lemma js_dot: "js ''.'' = [cu CHR ''.'']"
  by (simp add: js_def)

lemma digit_cases:
  fixes d :: int
  assumes "0 \<le> d" and "d < 10"
  shows "d = 0 \<or> d = 1 \<or> d = 2 \<or> d = 3 \<or> d = 4 \<or> d = 5 \<or> d = 6 \<or> d = 7 \<or>
         d = 8 \<or> d = 9"
  using assms by arith

lemma isDigit_digitChar: "0 \<le> d \<Longrightarrow> d < 10 \<Longrightarrow> isDigit (digitChar d)"
  using digit_cases [of d] by (auto simp: isDigit_def digitChar_def)

lemma digitValue_digitChar: "0 \<le> d \<Longrightarrow> d < 10 \<Longrightarrow> digitValue (digitChar d) = d"
  using digit_cases [of d] by (auto simp: digitValue_def digitChar_def)

lemma isDigit_unat: "isDigit c = (48 \<le> unat c \<and> unat c \<le> 57)"
  by (simp add: isDigit_def word_le_nat_alt)

lemma isWhiteSpace_unat: "isWhiteSpace c \<Longrightarrow> unat c < 48 \<or> 57 < unat c"
  unfolding isWhiteSpace_def by (auto simp: word_le_nat_alt)

lemma isDigit_not_special:
  assumes "isDigit c"
  shows "c \<noteq> cu CHR ''.''" and "c \<noteq> cu CHR ''+''" and "c \<noteq> cu CHR ''-''"
    and "\<not> isWhiteSpace c"
proof -
  from assms have range: "48 \<le> unat c" "unat c \<le> 57"
    by (simp_all add: isDigit_unat)
  from range(1) show "c \<noteq> cu CHR ''.''" and "c \<noteq> cu CHR ''+''" and "c \<noteq> cu CHR ''-''"
    by (auto simp: cu_dot cu_plus cu_minus)
  from range isWhiteSpace_unat [of c] show "\<not> isWhiteSpace c"
    by auto
qed

lemma digitsOf_all_digits:
  "0 \<le> n \<Longrightarrow> digitsOf 10 n \<noteq> [] \<and> list_all isDigit (digitsOf 10 n)"
proof (induction "10 :: int" n rule: digitsOf.induct)
  case (1 n)
  show ?case
  proof (cases "n < 10")
    case True
    with "1.prems" show ?thesis
      by (subst (1 2) digitsOf.simps) (simp add: isDigit_digitChar)
  next
    case False
    with "1.hyps" "1.prems" have "list_all isDigit (digitsOf 10 (n div 10))"
      by simp
    moreover have "isDigit (digitChar (n mod 10))"
      by (simp add: isDigit_digitChar)
    ultimately show ?thesis
      using False by (subst (1 2) digitsOf.simps) simp
  qed
qed

lemma decimalValue_snoc: "decimalValue (Z @ [c]) = decimalValue Z * 10 + digitValue c"
  by (simp add: decimalValue_def)

lemma decimalValue_digitsOf: "0 \<le> n \<Longrightarrow> decimalValue (digitsOf 10 n) = n"
proof (induction "10 :: int" n rule: digitsOf.induct)
  case (1 n)
  show ?case
  proof (cases "n < 10")
    case True
    with "1.prems" show ?thesis
      by (subst digitsOf.simps) (simp add: decimalValue_def digitValue_digitChar)
  next
    case False
    with "1.hyps" "1.prems" have "decimalValue (digitsOf 10 (n div 10)) = n div 10"
      by simp
    then show ?thesis
      using False
      by (subst digitsOf.simps) (simp add: decimalValue_snoc digitValue_digitChar)
  qed
qed

lemma parseInt10_all_digits:
  assumes "Z \<noteq> []" and "list_all isDigit Z"
  shows "parseInt10 Z = Some (decimalValue Z)"
proof -
  from assms obtain c cs where Z: "Z = c # cs" and c: "isDigit c"
    by (cases Z) auto
  have "dropWhile isWhiteSpace Z = Z"
    using Z isDigit_not_special(4) [OF c] by simp
  moreover have "takeWhile isDigit Z = Z"
    using assms(2) by (simp add: takeWhile_eq_all_conv list_all_iff)
  ultimately show ?thesis
    using Z isDigit_not_special(2,3) [OF c] by (simp add: parseInt10_def)
qed

lemma parseInt10_digitsOf: "0 \<le> n \<Longrightarrow> parseInt10 (digitsOf 10 n) = Some n"
  using digitsOf_all_digits [of n]
  by (simp add: parseInt10_all_digits decimalValue_digitsOf)

lemma splitFrom_no_dot:
  "cu CHR ''.'' \<notin> set a \<Longrightarrow> splitFrom piece a = [piece @ a]"
  by (induction a arbitrary: piece) auto

lemma splitFrom_dot:
  "cu CHR ''.'' \<notin> set a \<Longrightarrow>
   splitFrom piece (a @ cu CHR ''.'' # rest) = (piece @ a) # splitFrom [] rest"
  by (induction a arbitrary: piece) auto

lemma digitsOf_no_dot: "0 \<le> n \<Longrightarrow> cu CHR ''.'' \<notin> set (digitsOf 10 n)"
  using digitsOf_all_digits [of n] isDigit_not_special(1)
  by (auto simp: list_all_iff)

lemma split_dot_four:
  assumes "0 \<le> a" "0 \<le> b" "0 \<le> c" "0 \<le> d"
  shows "split_dot (digitsOf 10 a @ js ''.'' @ digitsOf 10 b @ js ''.'' @
                    digitsOf 10 c @ js ''.'' @ digitsOf 10 d)
         = [digitsOf 10 a, digitsOf 10 b, digitsOf 10 c, digitsOf 10 d]"
  using assms
  by (simp add: split_dot_def js_dot splitFrom_dot splitFrom_no_dot digitsOf_no_dot)

lemma numberLoop_four:
  assumes "0 \<le> n"
  shows "numberLoop 4 (Integer n) (numberToString 10 (rem256 (Integer n))) =
         digitsOf 10 (n div 256 div 256 div 256 mod 256) @ js ''.'' @
         digitsOf 10 (n div 256 div 256 mod 256) @ js ''.'' @
         digitsOf 10 (n div 256 mod 256) @ js ''.'' @ digitsOf 10 (n mod 256)"
proof -
  have nonneg: "\<not> n < 0" "\<not> n div 256 < 0" "\<not> n div 256 div 256 < 0"
    "\<not> n div 256 div 256 div 256 < 0"
    using assms by (simp_all add: pos_imp_zdiv_nonneg_iff)
  have mods: "\<not> m mod 256 < 0" for m :: int
    by simp
  show ?thesis
    by (subst numberLoop.simps, simp add: nonneg mods)+
qed

lemma dotNotationLoop_four:
  assumes "0 \<le> a" "a \<le> 255" "0 \<le> b" "b \<le> 255" "0 \<le> c" "c \<le> 255" "0 \<le> d" "d \<le> 255"
  shows "dotNotationLoop [digitsOf 10 a, digitsOf 10 b, digitsOf 10 c, digitsOf 10 d] 0 0 =
         Inr (((a * 256 + b) * 256 + c) * 256 + d)"
  using assms
  by (subst dotNotationLoop.simps, simp add: elementToString_def parseInt10_digitsOf)+

lemma octets_recompose:
  fixes n :: int
  assumes "0 \<le> n" and "n \<le> 4294967295"
  shows "((n div 256 div 256 div 256 mod 256 * 256 + n div 256 div 256 mod 256) * 256 +
          n div 256 mod 256) * 256 + n mod 256 = n"
proof -
  define q1 r0 where "q1 = n div 256" and "r0 = n mod 256"
  define q2 r1 where "q2 = q1 div 256" and "r1 = q1 mod 256"
  define q3 r2 where "q3 = q2 div 256" and "r2 = q2 mod 256"
  have n: "n = q1 * 256 + r0" and r0: "0 \<le> r0"
    by (simp_all add: q1_def r0_def)
  have q1: "q1 = q2 * 256 + r1" and r1: "0 \<le> r1"
    by (simp_all add: q2_def r1_def)
  have q2: "q2 = q3 * 256 + r2" and r2: "0 \<le> r2"
    by (simp_all add: q3_def r2_def)
  have "q3 < 256"
    using assms(2) n r0 q1 r1 q2 r2 by linarith
  moreover have "0 \<le> q3"
    using assms(1) by (simp add: q3_def q2_def q1_def pos_imp_zdiv_nonneg_iff)
  ultimately have q3: "q3 mod 256 = q3"
    by simp
  have "((q3 * 256 + r2) * 256 + r1) * 256 + r0 = n"
    by (simp only: n [symmetric] q1 [symmetric] q2 [symmetric])
  then have "((q3 mod 256 * 256 + r2) * 256 + r1) * 256 + r0 = n"
    by (simp only: q3)
  then show ?thesis
    by (simp only: q1_def q2_def q3_def r0_def r1_def r2_def)
qed

lemma parse_printed_octets:
  assumes "0 \<le> a" "a \<le> 255" "0 \<le> b" "b \<le> 255" "0 \<le> c" "c \<le> 255" "0 \<le> d" "d \<le> 255"
  shows "ipv4DotNotationToNumber
           (Str (digitsOf 10 a @ js ''.'' @ digitsOf 10 b @ js ''.'' @
                 digitsOf 10 c @ js ''.'' @ digitsOf 10 d))
         = Inr (((a * 256 + b) * 256 + c) * 256 + d)"
  using assms
  by (simp add: ipv4DotNotationToNumber_def split_dot_four dotNotationLoop_four)

lemma ipv4NumberToDotNotation_in_range:
  "0 \<le> A \<Longrightarrow> A \<le> 4294967295 \<Longrightarrow>
   ipv4NumberToDotNotation (Num (Integer A)) =
     Inr (numberLoop 4 (Integer A) (numberToString 10 (rem256 (Integer A))))"
  by (simp add: ipv4NumberToDotNotation_def num_gt_def)

text \<open>
  C8: for every integer \<open>n\<close> from 0 to 4294967295, formatting \<open>n\<close> returns a string,
  and parsing that string returns \<open>n\<close>.
\<close>

theorem roundtrip:
  assumes "0 \<le> n" and "n \<le> 4294967295"
  shows "\<exists>s. ipv4NumberToDotNotation (Num (Integer n)) = Inr s \<and>
             ipv4DotNotationToNumber (Str s) = Inr n"
proof -
  define a where "a = n div 256 div 256 div 256 mod 256"
  define b where "b = n div 256 div 256 mod 256"
  define c where "c = n div 256 mod 256"
  define d where "d = n mod 256"
  define s where "s = digitsOf 10 a @ js ''.'' @ digitsOf 10 b @ js ''.'' @
                      digitsOf 10 c @ js ''.'' @ digitsOf 10 d"
  have bounds: "0 \<le> a" "a \<le> 255" "0 \<le> b" "b \<le> 255" "0 \<le> c" "c \<le> 255" "0 \<le> d" "d \<le> 255"
    by (simp_all add: a_def b_def c_def d_def)
  have "numberLoop 4 (Integer n) (numberToString 10 (rem256 (Integer n))) = s"
    unfolding s_def a_def b_def c_def d_def by (rule numberLoop_four [OF assms(1)])
  with ipv4NumberToDotNotation_in_range [OF assms]
  have fmt: "ipv4NumberToDotNotation (Num (Integer n)) = Inr s"
    by (simp only:)
  have "ipv4DotNotationToNumber (Str s) = Inr (((a * 256 + b) * 256 + c) * 256 + d)"
    unfolding s_def by (rule parse_printed_octets [OF bounds])
  also have "((a * 256 + b) * 256 + c) * 256 + d = n"
    unfolding a_def b_def c_def d_def by (rule octets_recompose [OF assms])
  finally show ?thesis
    using fmt by blast
qed

text \<open>The same at 2130706433, which prints as \<open>127.0.0.1\<close>.\<close>

theorem roundtrip_witness:
  "(0::int) \<le> 2130706433 \<and> (2130706433::int) \<le> 4294967295 \<and>
   ipv4NumberToDotNotation (Num (Integer 2130706433)) = Inr (js ''127.0.0.1'') \<and>
   (\<exists>s. ipv4NumberToDotNotation (Num (Integer 2130706433)) = Inr s \<and>
        ipv4DotNotationToNumber (Str s) = Inr 2130706433)"
proof (intro conjI)
  show "(0::int) \<le> 2130706433" and "(2130706433::int) \<le> 4294967295"
    by simp_all
  show "ipv4NumberToDotNotation (Num (Integer 2130706433)) = Inr (js ''127.0.0.1'')"
    by code_simp
  show "\<exists>s. ipv4NumberToDotNotation (Num (Integer 2130706433)) = Inr s \<and>
            ipv4DotNotationToNumber (Str s) = Inr 2130706433"
    by (rule roundtrip) simp_all
qed

section \<open>Netmask normalisation\<close>

text \<open>
  C2, at the mask \<open>0.255.255.0\<close>. Its 32 bits are eight zeros, sixteen ones and eight
  zeros, which is not a run of ones followed by a run of zeros, so the claim asks for a
  failure. \<open>toString(2)\<close> prints the number without its leading zeros, as sixteen
  ones and eight zeros, and the function returns the prefix length 16.
\<close>

theorem netmaskToPrefixSize_leading_zero_octet:
  "netmaskToPrefixSize (Str (js ''0.255.255.0'')) = Inr (Some 16)"
  by code_simp

text \<open>
  C3, at the masks \<open>255.255.255.255\<close> and \<open>0.0.0.0\<close>. The claim asks for the prefix
  lengths 32 and 0. The binary string of the first has no \<open>0\<close> and that of the second
  no \<open>1\<close>, so one of the two indices is \<open>-1\<close> and the function returns \<open>null\<close>
  for both, although it accepts the same two prefix lengths as the numbers 32 and 0 and
  as the strings \<open>32\<close> and \<open>0\<close>.
\<close>

theorem netmaskToPrefixSize_all_ones_all_zeros:
  "netmaskToPrefixSize (Str (js ''255.255.255.255'')) = Inr None \<and>
   netmaskToPrefixSize (Str (js ''0.0.0.0'')) = Inr None \<and>
   netmaskToPrefixSize (Num (Integer 32)) = Inr (Some 32) \<and>
   netmaskToPrefixSize (Num (Integer 0)) = Inr (Some 0) \<and>
   netmaskToPrefixSize (Str (js ''32'')) = Inr (Some 32) \<and>
   netmaskToPrefixSize (Str (js ''0'')) = Inr (Some 0)"
  by code_simp

text \<open>
  What a caller sees: masking \<open>10.0.0.5\<close> with \<open>255.255.255.255\<close> throws (the
  \<open>null\<close> is computed with as a prefix length of 0, and \<open>lastNumeric\<close> is
  4462739459), while masking it with 32 returns the single-host subnet.
\<close>

lemma mask_dotted_all_ones_throws:
  "exn_bind (ip (Str (js ''10.0.0.5''))) (\<lambda>a. mask a (Str (js ''255.255.255.255''))) =
     Inl Error \<and>
   map_sum id (\<lambda>sn. (size' sn, first sn, last' sn))
     (exn_bind (ip (Str (js ''10.0.0.5''))) (\<lambda>a. mask a (Num (Integer 32)))) =
     Inr (1, js ''10.0.0.5'', js ''10.0.0.5'')"
  by code_simp

section \<open>Subnets\<close>

text \<open>
  With a shift count of 0 or 32 the mask is all ones and the masked address is the
  address itself.
\<close>

lemma all_ones_word: "(0xFFFFFFFF :: 32 word) = - 1"
  by simp


lemma shiftLeft_by_32: "shiftLeft x 32 = x"
  by (simp add: shiftLeft_def)

lemma uint_toUint32: "0 \<le> A \<Longrightarrow> A \<le> 4294967295 \<Longrightarrow> uint (toUint32 (Integer A)) = A"
  by (simp add: uint_word_of_int take_bit_int_eq_self)

lemma masked_all_ones:
  "0 \<le> A \<Longrightarrow> A \<le> 4294967295 \<Longrightarrow> uint (toUint32 (Integer A) AND 0xFFFFFFFF) = A"
  using uint_toUint32 [of A] by (simp only: all_ones_word and.right_neutral)

lemma ipv4NumberToDotNotation_above:
  "4294967295 < A \<Longrightarrow> ipv4NumberToDotNotation (Num (Integer A)) = Inl Error"
  by (simp add: ipv4NumberToDotNotation_def num_gt_def)



text \<open>
  A prefix length of 0 and the \<open>null\<close> of a rejected netmask are computed with alike:
  \<open>bits\<close> is 32, the mask is all ones, the size is \<open>2^32\<close>. For every address
  but 0 the broadcast address is beyond 4294967295 and the call throws (at the latest
  when the broadcast address is printed); for the address 0 it returns the subnet from
  \<open>0.0.0.0\<close> to \<open>255.255.255.255\<close>.
\<close>

lemma exn_bind_Inr: "exn_bind (Inr v) f = f v"
  by (simp add: exn_bind_def)

lemma exn_bind_Inl: "exn_bind (Inl e) f = Inl e"
  by (simp add: exn_bind_def)

lemma exn_bind_number_then_Error:
  "exn_bind (ipv4NumberToDotNotation (Num x)) (\<lambda>d. Inl Error) = Inl Error"
  by (simp add: ipv4NumberToDotNotation_def exn_bind_def)

lemma subnet_zero_prefix_throws:
  assumes prefix: "netmaskToPrefixSize netmask = Inr p" "prefixToNumber p = 0"
    and range: "1 \<le> A" "A \<le> 4294967295"
  shows "subnet (Integer A) netmask = Inl Error"
proof -
  have masked: "uint (toUint32 (Integer A) AND shiftLeft 0xFFFFFFFF (32 - 0)) = A"
    using range by (simp only: diff_zero shiftLeft_by_32 masked_all_ones)
  have size32: "pow2 (32 - 0) = 4294967296"
    by (simp add: pow2_def)
  have low: "((0::int) < 31) = True"
    by simp
  have dotted: "ipv4NumberToDotNotation (Num (Integer A)) =
      Inr (numberLoop 4 (Integer A) (numberToString 10 (rem256 (Integer A))))"
    using range by (simp add: ipv4NumberToDotNotation_in_range)
  have broadcast: "ipv4NumberToDotNotation (Num (Integer (A + 4294967296 - 1))) = Inl Error"
    using range by (simp add: ipv4NumberToDotNotation_above)
  show ?thesis
    unfolding subnet_def
    by (simp only: prefix exn_bind_Inr Let_def masked size32 low if_True dotted broadcast
        exn_bind_Inl exn_bind_number_then_Error)
qed

lemma dot_0: "ipv4NumberToDotNotation (Num (Integer 0)) = Inr (js ''0.0.0.0'')"
  and dot_1: "ipv4NumberToDotNotation (Num (Integer 1)) = Inr (js ''0.0.0.1'')"
  and dot_max1: "ipv4NumberToDotNotation (Num (Integer 4294967294)) = Inr (js ''255.255.255.254'')"
  and dot_max: "ipv4NumberToDotNotation (Num (Integer 4294967295)) = Inr (js ''255.255.255.255'')"
  by code_simp+

lemma subnet_zero_prefix_address_zero:
  assumes prefix: "netmaskToPrefixSize netmask = Inr p" "prefixToNumber p = 0"
  shows "\<exists>sn. subnet (Integer 0) netmask = Inr sn \<and> size' sn = 4294967296 \<and>
           network sn = Some (js ''0.0.0.0'') \<and> first sn = js ''0.0.0.1'' \<and>
           last' sn = js ''255.255.255.254'' \<and> broadcast sn = Some (js ''255.255.255.255'') \<and>
           cidr sn = js ''0.0.0.0'' @ js ''/'' @ prefixToString p"
proof -
  have masked: "uint (toUint32 (Integer 0) AND shiftLeft 0xFFFFFFFF (32 - 0)) = 0"
    by (simp add: shiftLeft_by_32)
  have size32: "pow2 (32 - 0) = 4294967296"
    by (simp add: pow2_def)
  have low: "((0::int) < 31) = True"
    by simp
  have sums: "(0::int) + 1 = 1" "(0::int) + 4294967296 - 2 = 4294967294"
    "(0::int) + 4294967296 - 1 = 4294967295"
    by simp_all
  show ?thesis
    unfolding subnet_def
    by (simp only: prefix exn_bind_Inr Let_def masked size32 low if_True sums
        dot_0 dot_1 dot_max1 dot_max) simp
qed

text \<open>
  C1, at the address \<open>127.0.0.1\<close> with prefix length 0. The claim asks for the subnet
  \<open>0.0.0.0\<close> to \<open>255.255.255.255\<close>. With \<open>bits = 32\<close> the shift
  \<open>0xffffffff << 32\<close> shifts by 0, so the mask is all ones, the masked address is the
  address itself, and \<open>lastNumeric\<close> is \<open>2130706433 + 2^32 - 2\<close>, which
  \<open>ipv4NumberToDotNotation\<close> rejects: the call throws.
\<close>

theorem subnet_prefix0_throws:
  "shiftLeft 0xFFFFFFFF (32 - 0) = 0xFFFFFFFF \<and>
   exn_bind (ip (Str (js ''127.0.0.1''))) (\<lambda>a. mask a (Num (Integer 0))) = Inl Error"
  by code_simp

text \<open>
  Where the network and the broadcast are not 0, \<open>contains\<close> compares the candidate
  with them.
\<close>

lemma contains_network_nonzero:
  assumes "networkNumeric sn = Some (Integer nw)" "nw \<noteq> 0"
    and "broadcastNumeric sn = Some (Integer bc)" "bc \<noteq> 0"
    and "ip address = Inr a" "valueOf a = Integer c"
  shows "contains sn address = Inr (nw \<le> c \<and> c \<le> bc)"
  using assms by (auto simp: contains_def exn_bind_def orElse_def num_ge_def)

text \<open>
  C4, at the subnet of \<open>0.0.0.5\<close> with prefix length 24 and the candidate
  \<open>0.0.0.0\<close>. The network is 0 and the broadcast 255, so the candidate lies between
  them and the claim asks for true. \<open>networkNumeric || firstNumeric\<close> takes the
  network 0 for absent and compares with \<open>firstNumeric = 1\<close>: the answer is false.
\<close>

theorem contains_network_zero:
  "map_sum id (\<lambda>sn. (networkNumeric sn, broadcastNumeric sn, contains sn (Str (js ''0.0.0.0''))))
     (exn_bind (ip (Str (js ''0.0.0.5''))) (\<lambda>a. mask a (Num (Integer 24))))
   = Inr (Some (Integer 0), Some (Integer 255), Inr False)"
  by code_simp

text \<open>
  C5, at the address 0 with the netmask 33. The netmask fails validation
  (\<open>netmaskToPrefixSize\<close> returns \<open>null\<close>), and the claim asks for a failure with no
  subnet returned. \<open>subnet\<close> never tests for \<open>null\<close>: it computes with it as with 0
  and returns a subnet object whose \<open>toString\<close> is \<open>0.0.0.0/null\<close>.
\<close>

theorem subnet_invalid_netmask_returns:
  "netmaskToPrefixSize (Num (Integer 33)) = Inr None \<and>
   map_sum id (\<lambda>sn. (cidr sn, network sn, broadcast sn, size' sn))
     (exn_bind (ip (Num (Integer 0))) (\<lambda>a. mask a (Num (Integer 33))))
   = Inr (js ''0.0.0.0/null'', Some (js ''0.0.0.0''), Some (js ''255.255.255.255''),
          4294967296)"
  by code_simp

end
